theory Spec2Isabelle
  imports Complex_Main "HOL-Library.Monad_Syntax"
begin

section \<open>Water viscosity after IAPWS: the embedding of WaterViscosityIAPWS.cpp\<close>

subsection \<open>Doubles\<close>

text \<open>
  A C++ \<open>double\<close> is modelled as a real number, or as the one value \<open>NonFinite\<close>
  that stands for the IEEE values plus or minus infinity and not-a-number. Arithmetic on
  finite values is exact: rounding and overflow are left out. A division by zero and the
  square root of a negative number leave the finite values, as they do in IEEE arithmetic,
  and every operation with a non-finite operand is non-finite again. (IEEE arithmetic can
  come back from an infinity, \<open>x / inf = 0\<close> and \<open>exp (-inf) = 0\<close>; for finite arguments
  \<open>T\<close> and \<open>rho\<close> no result of the three entry points depends on such a step.)
\<close>

datatype dbl = Finite real | NonFinite

instantiation dbl :: "{zero, one, plus, minus, times, inverse}"
begin

definition zero_dbl :: dbl where
  "zero_dbl = Finite 0"

definition one_dbl :: dbl where
  "one_dbl = Finite 1"

fun plus_dbl :: "dbl \<Rightarrow> dbl \<Rightarrow> dbl" where
  "plus_dbl (Finite a) (Finite b) = Finite (a + b)"
| "plus_dbl _ _ = NonFinite"

fun minus_dbl :: "dbl \<Rightarrow> dbl \<Rightarrow> dbl" where
  "minus_dbl (Finite a) (Finite b) = Finite (a - b)"
| "minus_dbl _ _ = NonFinite"

fun times_dbl :: "dbl \<Rightarrow> dbl \<Rightarrow> dbl" where
  "times_dbl (Finite a) (Finite b) = Finite (a * b)"
| "times_dbl _ _ = NonFinite"

fun divide_dbl :: "dbl \<Rightarrow> dbl \<Rightarrow> dbl" where
  "divide_dbl (Finite a) (Finite b) = (if b = 0 then NonFinite else Finite (a / b))"
| "divide_dbl _ _ = NonFinite"

definition inverse_dbl :: "dbl \<Rightarrow> dbl" where
  "inverse_dbl a = divide (Finite 1) a"

instance ..

end

text \<open>\<open>std::sqrt\<close> and \<open>std::exp\<close>.\<close>

fun dsqrt :: "dbl \<Rightarrow> dbl" where
  "dsqrt (Finite a) = (if a < 0 then NonFinite else Finite (sqrt a))"
| "dsqrt NonFinite = NonFinite"

fun dexp :: "dbl \<Rightarrow> dbl" where
  "dexp (Finite a) = Finite (exp a)"
| "dexp NonFinite = NonFinite"

text \<open>
  Sums and powers of doubles: addition and multiplication are associative and commutative
  with units \<open>Finite 0\<close> and \<open>Finite 1\<close>, because a non-finite operand absorbs.
\<close>

instance dbl :: comm_monoid_add
proof
  fix x y z :: dbl
  show "x + y + z = x + (y + z)"
  proof (cases x)
    case (Finite r)
    then show ?thesis by (cases y; cases z; simp)
  next
    case NonFinite
    then show ?thesis by simp
  qed
  show "x + y = y + x"
    by (cases x; cases y; simp)
  show "0 + x = x"
    unfolding zero_dbl_def by (cases x; simp)
qed

instance dbl :: comm_monoid_mult
proof
  fix x y z :: dbl
  show "x * y * z = x * (y * z)"
  proof (cases x)
    case (Finite r)
    then show ?thesis by (cases y; cases z; simp)
  next
    case NonFinite
    then show ?thesis by simp
  qed
  show "x * y = y * x"
    by (cases x; cases y; simp)
  show "1 * x = x"
    unfolding one_dbl_def by (cases x; simp)
qed

subsection \<open>Arrays, vectors and counted loops\<close>

text \<open>
  A read or a write through \<open>operator[]\<close> outside the array has no defined behaviour in
  C++; in the model it is \<open>None\<close>, and so is every computation that contains one.
\<close>

definition arr_at :: "'a list \<Rightarrow> nat \<Rightarrow> 'a option" where
  "arr_at xs i = (if i < length xs then Some (xs ! i) else None)"

definition arr_set :: "'a list \<Rightarrow> nat \<Rightarrow> 'a \<Rightarrow> 'a list option" where
  "arr_set xs i v = (if i < length xs then Some (xs[i := v]) else None)"

text \<open>
  \<open>for (int i = a; i < b; i++) body\<close> runs the body on the indices \<open>[a..<b]\<close> in
  order, threading the variables the body assigns.
\<close>

fun for_loop :: "nat list \<Rightarrow> (nat \<Rightarrow> 's \<Rightarrow> 's option) \<Rightarrow> 's \<Rightarrow> 's option" where
  "for_loop [] body s = Some s"
| "for_loop (i # idx) body s = (case body i s of None \<Rightarrow> None | Some s' \<Rightarrow> for_loop idx body s')"

subsection \<open>The coefficient tables\<close>

text \<open>The numbers of the two \<open>static const\<close> tables, and the tables as arrays of doubles.\<close>

definition Hi_values :: "real list" where
  "Hi_values = [1.67752, 2.20462, 0.6366564, -0.241605]"

definition Hij_values :: "real list list" where
  "Hij_values =
    [[0.520094, 0.222531, -0.281378, 0.161913, -0.0325372, 0, 0],
     [0.0850895, 0.999115, -0.906851, 0.257399, 0, 0, 0],
     [-1.08374, 1.88797, -0.772479, 0, 0, 0, 0],
     [-0.289555, 1.26613, -0.489837, 0, 0.0698452, 0, -0.00435673],
     [0, 0, -0.25704, 0, 0, 0.00872102, 0],
     [0, 0.120573, 0, 0, 0, 0, -0.000593264]]"

definition Hi :: "dbl list" where
  "Hi = map Finite Hi_values"

definition Hij :: "dbl list list" where
  "Hij = map (map Finite) Hij_values"

text \<open>\<open>Hij[i][j]\<close>: both indices are checked.\<close>

definition Hij_at :: "nat \<Rightarrow> nat \<Rightarrow> dbl option" where
  "Hij_at i j = do { row \<leftarrow> arr_at Hij i; arr_at row j }"

subsection \<open>The helper functions\<close>

definition computeBarMu0Factor :: "dbl \<Rightarrow> dbl option" where
  "computeBarMu0Factor barT =
     do {
       (sum_val, barT_i) \<leftarrow>
         for_loop [0..<4]
           (\<lambda>i. \<lambda>(sum_val, barT_i). do {
              h \<leftarrow> arr_at Hi i;
              Some (sum_val + h / barT_i, barT_i * barT) })
           (Finite 0, Finite 1);
       Some sum_val
     }"

definition computeSeriesFactorTForMu1 :: "dbl \<Rightarrow> dbl list option" where
  "computeSeriesFactorTForMu1 barT =
     do {
       series_factorT \<leftarrow> arr_set (replicate 6 (Finite 0)) 0 (Finite 1);
       let barT_fac = Finite 1 / barT - Finite 1;
       for_loop [1..<6]
         (\<lambda>i series_factorT. do {
            p \<leftarrow> arr_at series_factorT (i - 1);
            arr_set series_factorT i (p * barT_fac) })
         series_factorT
     }"

definition computeSeriesFactorRhoForMu1 :: "dbl \<Rightarrow> dbl list option" where
  "computeSeriesFactorRhoForMu1 bar_rho =
     do {
       series_factorRho \<leftarrow> arr_set (replicate 7 (Finite 0)) 0 (Finite 1);
       for_loop [1..<7]
         (\<lambda>i series_factorRho. do {
            p \<leftarrow> arr_at series_factorRho (i - 1);
            arr_set series_factorRho i (p * (bar_rho - Finite 1)) })
         series_factorRho
     }"

definition computeBarMu1Factor :: "dbl list \<Rightarrow> dbl list \<Rightarrow> dbl option" where
  "computeBarMu1Factor series_factorT series_factorRho =
     for_loop [0..<6]
       (\<lambda>i sum_val. do {
          sum_val_j \<leftarrow>
            for_loop [0..<7]
              (\<lambda>j sum_val_j. do {
                 h \<leftarrow> Hij_at i j;
                 r \<leftarrow> arr_at series_factorRho j;
                 Some (sum_val_j + h * r) })
              (Finite 0);
          t \<leftarrow> arr_at series_factorT i;
          Some (sum_val + t * sum_val_j) })
       (Finite 0)"

definition computedBarMu_dbarT :: "dbl \<Rightarrow> dbl \<Rightarrow> dbl option" where
  "computedBarMu_dbarT barT bar_rho =
     do {
       mu0_factor \<leftarrow> computeBarMu0Factor barT;
       let sqrt_barT = dsqrt barT;
       (dmu0_factor_dbarT, barT_i) \<leftarrow>
         for_loop [1..<4]
           (\<lambda>i. \<lambda>(dmu0_factor_dbarT, barT_i). do {
              h \<leftarrow> arr_at Hi i;
              Some (dmu0_factor_dbarT - Finite (real i) * (h / barT_i), barT_i * barT) })
           (Finite 0, barT * barT);
       let dbar_mu0_dbarT =
             Finite 50 / (mu0_factor * sqrt_barT) -
             Finite 100 * sqrt_barT * dmu0_factor_dbarT / (mu0_factor * mu0_factor);
       series_factorT \<leftarrow> computeSeriesFactorTForMu1 barT;
       series_factorRho \<leftarrow> computeSeriesFactorRhoForMu1 bar_rho;
       dmu1_factor_dbarT \<leftarrow>
         for_loop [1..<6]
           (\<lambda>i dmu1_factor_dbarT. do {
              sum_val_j \<leftarrow>
                for_loop [0..<7]
                  (\<lambda>j sum_val_j. do {
                     h \<leftarrow> Hij_at i j;
                     r \<leftarrow> arr_at series_factorRho j;
                     Some (sum_val_j + h * r) })
                  (Finite 0);
              t \<leftarrow> arr_at series_factorT (i - 1);
              Some (dmu1_factor_dbarT - Finite (real i) * t * sum_val_j / (barT * barT)) })
           (Finite 0);
       mu1_factor \<leftarrow> computeBarMu1Factor series_factorT series_factorRho;
       let dbar_mu1_dbarT = bar_rho * dexp (bar_rho * mu1_factor) * dmu1_factor_dbarT;
       Some (dbar_mu0_dbarT * dexp (bar_rho * mu1_factor) +
             dbar_mu1_dbarT * Finite 100 * sqrt_barT / mu0_factor)
     }"

definition computedBarMu_dbarRho :: "dbl \<Rightarrow> dbl \<Rightarrow> dbl option" where
  "computedBarMu_dbarRho barT bar_rho =
     do {
       series_factorT \<leftarrow> computeSeriesFactorTForMu1 barT;
       series_factorRho \<leftarrow> computeSeriesFactorRhoForMu1 bar_rho;
       dmu1_factor_dbar_rho \<leftarrow>
         for_loop [0..<6]
           (\<lambda>i dmu1_factor_dbar_rho. do {
              sum_val_j \<leftarrow>
                for_loop [1..<7]
                  (\<lambda>j sum_val_j. do {
                     h \<leftarrow> Hij_at i j;
                     r \<leftarrow> arr_at series_factorRho (j - 1);
                     Some (sum_val_j + Finite (real j) * h * r) })
                  (Finite 0);
              t \<leftarrow> arr_at series_factorT i;
              Some (dmu1_factor_dbar_rho + t * sum_val_j) })
           (Finite 0);
       f0 \<leftarrow> computeBarMu0Factor barT;
       let mu0 = Finite 100 * dsqrt barT / f0;
       mu1_factor \<leftarrow> computeBarMu1Factor series_factorT series_factorRho;
       Some (mu0 * dexp (bar_rho * mu1_factor) *
             (mu1_factor + bar_rho * dmu1_factor_dbar_rho))
     }"

subsection \<open>The three entry points\<close>

text \<open>
  The arguments are finite doubles, taken as real numbers. The three reference constants
  are locals of each entry point, as in the source.
\<close>

definition getValue :: "real \<Rightarrow> real \<Rightarrow> dbl option" where
  "getValue T rho =
     (let ref_T = Finite 647.096;
          ref_rho = Finite 322.0;
          ref_mu = Finite 0.000001;
          bar_T = Finite T / ref_T;
          bar_rho = Finite rho / ref_rho
      in do {
        f0 \<leftarrow> computeBarMu0Factor bar_T;
        let mu0 = Finite 100 * dsqrt bar_T / f0;
        series_factorT \<leftarrow> computeSeriesFactorTForMu1 bar_T;
        series_factorRho \<leftarrow> computeSeriesFactorRhoForMu1 bar_rho;
        f1 \<leftarrow> computeBarMu1Factor series_factorT series_factorRho;
        let mu1 = dexp (bar_rho * f1);
        Some (mu0 * mu1 * ref_mu)
      })"

definition getdValuedT :: "real \<Rightarrow> real \<Rightarrow> dbl option" where
  "getdValuedT T rho =
     (let ref_T = Finite 647.096;
          ref_rho = Finite 322.0;
          ref_mu = Finite 0.000001;
          bar_T = Finite T / ref_T;
          bar_rho = Finite rho / ref_rho
      in do {
        d \<leftarrow> computedBarMu_dbarT bar_T bar_rho;
        Some (ref_mu * d / ref_T)
      })"

definition getdValuedRho :: "real \<Rightarrow> real \<Rightarrow> dbl option" where
  "getdValuedRho T rho =
     (let ref_T = Finite 647.096;
          ref_rho = Finite 322.0;
          ref_mu = Finite 0.000001;
          bar_T = Finite T / ref_T;
          bar_rho = Finite rho / ref_rho
      in do {
        d \<leftarrow> computedBarMu_dbarRho bar_T bar_rho;
        Some (ref_mu * d / ref_rho)
      })"

section \<open>The reference formulas of the specification\<close>

text \<open>
  The formulas the specification gives for the dilute-gas factor, the residual factor, its
  derivative in the reduced density, the viscosity and its derivative in the density,
  written in the same arithmetic of doubles.
\<close>

definition f0_spec :: "dbl \<Rightarrow> dbl" where
  "f0_spec barT = (\<Sum>i<4. Hi ! i / barT ^ i)"

definition f1_spec :: "dbl \<Rightarrow> dbl \<Rightarrow> dbl" where
  "f1_spec barT bar_rho =
     (\<Sum>i<6. (Finite 1 / barT - Finite 1) ^ i * (\<Sum>j<7. Hij ! i ! j * (bar_rho - Finite 1) ^ j))"

definition df1_dbar_rho_spec :: "dbl \<Rightarrow> dbl \<Rightarrow> dbl" where
  "df1_dbar_rho_spec barT bar_rho =
     (\<Sum>i<6. (Finite 1 / barT - Finite 1) ^ i *
        (\<Sum>j\<in>{1..<7}. Finite (real j) * Hij ! i ! j * (bar_rho - Finite 1) ^ (j - 1)))"

definition mu0_spec :: "dbl \<Rightarrow> dbl" where
  "mu0_spec barT = Finite 100 * dsqrt barT / f0_spec barT"

definition viscosity_spec :: "real \<Rightarrow> real \<Rightarrow> dbl" where
  "viscosity_spec T rho =
     (let barT = Finite T / Finite 647.096; bar_rho = Finite rho / Finite 322.0
      in mu0_spec barT * dexp (bar_rho * f1_spec barT bar_rho) * Finite 0.000001)"

definition d_viscosity_dRho_spec :: "real \<Rightarrow> real \<Rightarrow> dbl" where
  "d_viscosity_dRho_spec T rho =
     (let barT = Finite T / Finite 647.096; bar_rho = Finite rho / Finite 322.0
      in Finite 0.000001 *
         (mu0_spec barT * dexp (bar_rho * f1_spec barT bar_rho) *
          (f1_spec barT bar_rho + bar_rho * df1_dbar_rho_spec barT bar_rho)) /
         Finite 322.0)"

section \<open>The formulas over the reals\<close>

text \<open>
  The same formulas on real numbers, for the arguments at which every double of the
  computation is finite: the dilute-gas factor, the residual factor row by row, the
  reduced viscosity, and the derivative expressions the two derivative functions compute.
\<close>

definition f0_real :: "real \<Rightarrow> real" where
  "f0_real t = (\<Sum>i<4. Hi_values ! i / t ^ i)"

definition f1_row_real :: "nat \<Rightarrow> real \<Rightarrow> real" where
  "f1_row_real i r = (\<Sum>j<7. Hij_values ! i ! j * (r - 1) ^ j)"

definition f1_real :: "real \<Rightarrow> real \<Rightarrow> real" where
  "f1_real t r = (\<Sum>i<6. (1 / t - 1) ^ i * f1_row_real i r)"

definition bar_mu_real :: "real \<Rightarrow> real \<Rightarrow> real" where
  "bar_mu_real t r = 100 * sqrt t / f0_real t * exp (r * f1_real t r)"







section \<open>The code computes the reference formulas\<close>

subsection \<open>Doubles, tables and loops\<close>

lemma Finite_power: "Finite a ^ n = Finite (a ^ n)"
  by (induction n) (simp_all add: one_dbl_def)

lemma Finite_sum: "finite A \<Longrightarrow> (\<Sum>i\<in>A. Finite (f i)) = Finite (\<Sum>i\<in>A. f i)"
  by (induction A rule: finite_induct) (simp_all add: zero_dbl_def)

lemma dbl_diff_diff: "(a::dbl) - b - c = a - (b + c)"
  by (cases a; cases b; cases c) simp_all

lemma arr_at_ok: "i < length xs \<Longrightarrow> arr_at xs i = Some (xs ! i)"
  by (simp add: arr_at_def)

lemma upt_0_4: "[0..<4] = [0, 1, 2, 3]"
  by (simp add: upt_rec)

lemma upt_1_4: "[1..<4] = [1, 2, 3]"
  by (simp add: upt_rec)

lemma upt_1_6: "[1..<6] = [1, 2, 3, 4, 5]"
  by (simp add: upt_rec)

lemma upt_1_7: "[1..<7] = [1, 2, 3, 4, 5, 6]"
  by (simp add: upt_rec)

lemma Hi_len: "length Hi = 4"
  by (simp add: Hi_def Hi_values_def)

lemma Hij_len: "length Hij = 6"
  by (simp add: Hij_def Hij_values_def)

lemma Hij_row_len: "i < 6 \<Longrightarrow> length (Hij ! i) = 7"
proof -
  assume "i < 6"
  then have "i \<in> {0,1,2,3,4,5}" by auto
  then show ?thesis by (auto simp: Hij_def Hij_values_def)
qed

lemma Hij_at_ok: "i < 6 \<Longrightarrow> j < 7 \<Longrightarrow> Hij_at i j = Some (Hij ! i ! j)"
  by (simp add: Hij_at_def arr_at_def Hij_len Hij_row_len)

lemma for_loop_add:
  fixes g :: "nat \<Rightarrow> dbl"
  assumes "\<And>i s. i \<in> set idx \<Longrightarrow> body i s = Some (s + g i)"
  shows "for_loop idx body a = Some (a + sum_list (map g idx))"
  using assms
proof (induction idx arbitrary: a)
  case Nil
  then show ?case by (simp add: zero_dbl_def[symmetric])
next
  case (Cons i idx)
  then show ?case by (simp add: add.assoc)
qed

lemma for_loop_sub:
  fixes g :: "nat \<Rightarrow> dbl"
  assumes "\<And>i s. i \<in> set idx \<Longrightarrow> body i s = Some (s - g i)"
  shows "for_loop idx body a = Some (a - sum_list (map g idx))"
  using assms
proof (induction idx arbitrary: a)
  case Nil
  then show ?case by (cases a) (simp_all add: zero_dbl_def)
next
  case (Cons i idx)
  then show ?case by (simp add: dbl_diff_diff)
qed

lemma sum4: "(\<Sum>i<4. f i) = ((f 0 + f 1) + f 2) + (f (3::nat) :: dbl)"
  by (simp add: eval_nat_numeral lessThan_Suc ac_simps)

lemma computeBarMu0Factor_sum: "computeBarMu0Factor barT = Some (\<Sum>i<4. Hi ! i / barT ^ i)"
  unfolding computeBarMu0Factor_def sum4
  apply (simp add: upt_0_4 arr_at_def Hi_len)
  apply (simp add: eval_nat_numeral  zero_dbl_def[symmetric] one_dbl_def[symmetric] mult.assoc)
  done

lemma seriesT: "computeSeriesFactorTForMu1 barT = Some (map (\<lambda>k. (Finite 1 / barT - Finite 1) ^ k) [0..<6])"
  unfolding computeSeriesFactorTForMu1_def
  apply (simp add: upt_1_6 arr_at_def arr_set_def Let_def)
  apply (simp add: eval_nat_numeral upt_rec one_dbl_def[symmetric] mult.assoc)
  done

lemma seriesRho: "computeSeriesFactorRhoForMu1 bar_rho = Some (map (\<lambda>k. (bar_rho - Finite 1) ^ k) [0..<7])"
  unfolding computeSeriesFactorRhoForMu1_def
  apply (simp add: upt_1_7 arr_at_def arr_set_def Let_def)
  apply (simp add: eval_nat_numeral upt_rec one_dbl_def[symmetric] mult.assoc)
  done

lemma inner_loop:
  assumes "i < 6" "length sR = 7"
  shows "for_loop [0..<7] (\<lambda>j sum_val_j. do { h \<leftarrow> Hij_at i j; r \<leftarrow> arr_at sR j; Some (sum_val_j + h * r) }) (Finite 0)
       = Some (\<Sum>j<7. Hij ! i ! j * sR ! j)"
proof -
  have "for_loop [0..<7] (\<lambda>j sum_val_j. do { h \<leftarrow> Hij_at i j; r \<leftarrow> arr_at sR j; Some (sum_val_j + h * r) }) (Finite 0)
       = Some (Finite 0 + sum_list (map (\<lambda>j. Hij ! i ! j * sR ! j) [0..<7]))"
    by (rule for_loop_add) (simp add: Hij_at_ok assms arr_at_ok)
  then show ?thesis
    by (simp add: interv_sum_list_conv_sum_set_nat zero_dbl_def[symmetric] atLeast0LessThan)
qed

lemma computeBarMu1Factor_sum:
  assumes "length sT = 6" "length sR = 7"
  shows "computeBarMu1Factor sT sR = Some (\<Sum>i<6. sT ! i * (\<Sum>j<7. Hij ! i ! j * sR ! j))"
proof -
  have "computeBarMu1Factor sT sR = Some (Finite 0 + sum_list (map (\<lambda>i. sT ! i * (\<Sum>j<7. Hij ! i ! j * sR ! j)) [0..<6]))"
    unfolding computeBarMu1Factor_def
    by (rule for_loop_add) (simp add: inner_loop assms arr_at_ok)
  then show ?thesis
    by (simp add: interv_sum_list_conv_sum_set_nat zero_dbl_def[symmetric] atLeast0LessThan)
qed

lemma computeBarMu0Factor_spec: "computeBarMu0Factor barT = Some (f0_spec barT)"
  by (simp add: computeBarMu0Factor_sum f0_spec_def)

lemma mu1_factor_spec:
  "computeBarMu1Factor (map (\<lambda>k. (Finite 1 / barT - Finite 1) ^ k) [0..<6])
                       (map (\<lambda>k. (bar_rho - Finite 1) ^ k) [0..<7]) = Some (f1_spec barT bar_rho)"
proof -
  have "(\<Sum>i<6. map (\<lambda>k. (Finite 1 / barT - Finite 1) ^ k) [0..<6] ! i *
           (\<Sum>j<7. Hij ! i ! j * map (\<lambda>k. (bar_rho - Finite 1) ^ k) [0..<7] ! j))
        = f1_spec barT bar_rho"
    unfolding f1_spec_def
    by (intro sum.cong refl arg_cong2[where f="(*)"]) simp_all
  then show ?thesis
    by (simp add: computeBarMu1Factor_sum)
qed

lemma getValue_spec: "getValue T rho = Some (viscosity_spec T rho)"
  by (simp add: getValue_def viscosity_spec_def mu0_spec_def Let_def
      computeBarMu0Factor_spec seriesT seriesRho mu1_factor_spec)

lemma sum_1_4: "(\<Sum>i\<in>{1..<4}. f i) = (f 1 + f 2) + (f (3::nat) :: dbl)"
  by (simp add: eval_nat_numeral atLeastLessThanSuc ac_simps)

lemma dmu0_loop:
  "for_loop [1..<4]
     (\<lambda>i. \<lambda>(dmu0_factor_dbarT, barT_i). do {
        h \<leftarrow> arr_at Hi i;
        Some (dmu0_factor_dbarT - Finite (real i) * (h / barT_i), barT_i * barT) })
     (Finite 0, barT * barT)
   = Some (Finite 0 - (\<Sum>i\<in>{1..<4}. Finite (real i) * (Hi ! i / barT ^ (i + 1))), barT ^ 5)"
  unfolding sum_1_4
  apply (simp add: upt_1_4 arr_at_def Hi_len)
  apply (simp add: eval_nat_numeral dbl_diff_diff mult.assoc add.assoc)
  done

lemma dmu1_loop:
  assumes "length sT = 6" "length sR = 7"
  shows "for_loop [1..<6]
           (\<lambda>i dmu1_factor_dbarT. do {
              sum_val_j \<leftarrow>
                for_loop [0..<7]
                  (\<lambda>j sum_val_j. do {
                     h \<leftarrow> Hij_at i j;
                     r \<leftarrow> arr_at sR j;
                     Some (sum_val_j + h * r) })
                  (Finite 0);
              t \<leftarrow> arr_at sT (i - 1);
              Some (dmu1_factor_dbarT - Finite (real i) * t * sum_val_j / (barT * barT)) })
           (Finite 0)
       = Some (Finite 0 - (\<Sum>i\<in>{1..<6}. Finite (real i) * sT ! (i - 1) *
                  (\<Sum>j<7. Hij ! i ! j * sR ! j) / (barT * barT)))"
proof -
  have "for_loop [1..<6]
           (\<lambda>i dmu1_factor_dbarT. do {
              sum_val_j \<leftarrow>
                for_loop [0..<7]
                  (\<lambda>j sum_val_j. do {
                     h \<leftarrow> Hij_at i j;
                     r \<leftarrow> arr_at sR j;
                     Some (sum_val_j + h * r) })
                  (Finite 0);
              t \<leftarrow> arr_at sT (i - 1);
              Some (dmu1_factor_dbarT - Finite (real i) * t * sum_val_j / (barT * barT)) })
           (Finite 0)
       = Some (Finite 0 - sum_list (map (\<lambda>i. Finite (real i) * sT ! (i - 1) *
                  (\<Sum>j<7. Hij ! i ! j * sR ! j) / (barT * barT)) [1..<6]))"
    by (rule for_loop_sub) (simp add: inner_loop assms, auto simp add: arr_at_def assms)
  then show ?thesis
    by (simp add: interv_sum_list_conv_sum_set_nat)
qed

lemma drho_inner_loop:
  assumes "i < 6" "length sR = 7"
  shows "for_loop [1..<7]
           (\<lambda>j sum_val_j. do {
              h \<leftarrow> Hij_at i j;
              r \<leftarrow> arr_at sR (j - 1);
              Some (sum_val_j + Finite (real j) * h * r) })
           (Finite 0)
       = Some (\<Sum>j\<in>{1..<7}. Finite (real j) * Hij ! i ! j * sR ! (j - 1))"
proof -
  have "for_loop [1..<7]
           (\<lambda>j sum_val_j. do {
              h \<leftarrow> Hij_at i j;
              r \<leftarrow> arr_at sR (j - 1);
              Some (sum_val_j + Finite (real j) * h * r) })
           (Finite 0)
       = Some (Finite 0 + sum_list (map (\<lambda>j. Finite (real j) * Hij ! i ! j * sR ! (j - 1)) [1..<7]))"
    by (rule for_loop_add) (auto simp add: Hij_at_ok assms arr_at_def)
  then show ?thesis
    by (simp add: interv_sum_list_conv_sum_set_nat zero_dbl_def[symmetric])
qed

lemma drho_loop:
  assumes "length sT = 6" "length sR = 7"
  shows "for_loop [0..<6]
           (\<lambda>i dmu1_factor_dbar_rho. do {
              sum_val_j \<leftarrow>
                for_loop [1..<7]
                  (\<lambda>j sum_val_j. do {
                     h \<leftarrow> Hij_at i j;
                     r \<leftarrow> arr_at sR (j - 1);
                     Some (sum_val_j + Finite (real j) * h * r) })
                  (Finite 0);
              t \<leftarrow> arr_at sT i;
              Some (dmu1_factor_dbar_rho + t * sum_val_j) })
           (Finite 0)
       = Some (\<Sum>i<6. sT ! i * (\<Sum>j\<in>{1..<7}. Finite (real j) * Hij ! i ! j * sR ! (j - 1)))"
proof -
  have "for_loop [0..<6]
           (\<lambda>i dmu1_factor_dbar_rho. do {
              sum_val_j \<leftarrow>
                for_loop [1..<7]
                  (\<lambda>j sum_val_j. do {
                     h \<leftarrow> Hij_at i j;
                     r \<leftarrow> arr_at sR (j - 1);
                     Some (sum_val_j + Finite (real j) * h * r) })
                  (Finite 0);
              t \<leftarrow> arr_at sT i;
              Some (dmu1_factor_dbar_rho + t * sum_val_j) })
           (Finite 0)
       = Some (Finite 0 + sum_list (map (\<lambda>i. sT ! i *
            (\<Sum>j\<in>{1..<7}. Finite (real j) * Hij ! i ! j * sR ! (j - 1))) [0..<6]))"
    by (rule for_loop_add) (simp add: drho_inner_loop assms arr_at_ok del: One_nat_def)
  then show ?thesis
    by (simp add: interv_sum_list_conv_sum_set_nat zero_dbl_def[symmetric] atLeast0LessThan)
qed

subsection \<open>Finite arguments\<close>

lemma Hi_values_len: "length Hi_values = 4"
  by (simp add: Hi_values_def)

lemma Hi_nth: "i < 4 \<Longrightarrow> Hi ! i = Finite (Hi_values ! i)"
  by (simp add: Hi_def Hi_values_len)

lemma Hij_values_row_len: "i < 6 \<Longrightarrow> length (Hij_values ! i) = 7"
proof -
  assume "i < 6"
  then have "i \<in> {0,1,2,3,4,5}" by auto
  then show ?thesis by (auto simp: Hij_values_def)
qed

lemma Hij_nth: "i < 6 \<Longrightarrow> j < 7 \<Longrightarrow> Hij ! i ! j = Finite (Hij_values ! i ! j)"
proof -
  assume a: "i < 6" "j < 7"
  have "length Hij_values = 6" by (simp add: Hij_values_def)
  with a show ?thesis by (simp add: Hij_def Hij_values_row_len)
qed

lemma f0_spec_Finite: "t \<noteq> 0 \<Longrightarrow> f0_spec (Finite t) = Finite (f0_real t)"
proof -
  assume t: "t \<noteq> 0"
  have "(\<Sum>i<4. Hi ! i / Finite t ^ i) = (\<Sum>i<4. Finite (Hi_values ! i / t ^ i))"
    by (rule sum.cong) (simp_all add: Hi_nth Finite_power t)
  then show ?thesis by (simp add: f0_spec_def f0_real_def Finite_sum)
qed

lemma f1_row_Finite: "i < 6 \<Longrightarrow> (\<Sum>j<7. Hij ! i ! j * (Finite r - Finite 1) ^ j) = Finite (f1_row_real i r)"
proof -
  assume i: "i < 6"
  have "(\<Sum>j<7. Hij ! i ! j * (Finite r - Finite 1) ^ j) = (\<Sum>j<7. Finite (Hij_values ! i ! j * (r - 1) ^ j))"
    by (rule sum.cong) (simp_all add: Hij_nth Finite_power i)
  then show ?thesis by (simp add: f1_row_real_def Finite_sum)
qed

lemma f1_row_Finite': "i < 6 \<Longrightarrow> (\<Sum>j<7. Hij ! i ! j * Finite ((r - 1) ^ j)) = Finite (f1_row_real i r)"
  using f1_row_Finite[of i r] by (simp add: Finite_power)

lemma f1_spec_Finite: "t \<noteq> 0 \<Longrightarrow> f1_spec (Finite t) (Finite r) = Finite (f1_real t r)"
proof -
  assume t: "t \<noteq> 0"
  have "(\<Sum>i<6. (Finite 1 / Finite t - Finite 1) ^ i * (\<Sum>j<7. Hij ! i ! j * (Finite r - Finite 1) ^ j))
      = (\<Sum>i<6. Finite ((1 / t - 1) ^ i * f1_row_real i r))"
    by (rule sum.cong) (simp_all add: f1_row_Finite' Finite_power t)
  then show ?thesis by (simp add: f1_spec_def f1_real_def Finite_sum)
qed

lemma viscosity_spec_Finite:
  assumes "0 < T" "f0_real (T / 647.096) \<noteq> 0"
  shows "viscosity_spec T rho = Finite (bar_mu_real (T / 647.096) (rho / 322) * 0.000001)"
  using assms
  by (simp add: viscosity_spec_def mu0_spec_def Let_def f0_spec_Finite f1_spec_Finite bar_mu_real_def)

subsection \<open>Derivatives\<close>

lemma sum4r: "(\<Sum>i<4. f i) = f 0 + f 1 + f 2 + (f (3::nat) :: real)"
  by (simp add: eval_nat_numeral lessThan_Suc)

lemma sum6r: "(\<Sum>i<6. f i) = f 0 + f 1 + f 2 + f 3 + f 4 + (f (5::nat) :: real)"
  by (simp add: eval_nat_numeral lessThan_Suc)

lemma sum7r: "(\<Sum>i<7. f i) = f 0 + f 1 + f 2 + f 3 + f 4 + f 5 + (f (6::nat) :: real)"
  by (simp add: eval_nat_numeral lessThan_Suc)










lemma length_seriesT: "length (map (\<lambda>k. (Finite 1 / barT - Finite 1) ^ k) [0..<6]) = 6"
  by simp

lemma length_seriesRho: "length (map (\<lambda>k. (bar_rho - Finite 1) ^ k) [0..<7]) = 7"
  by simp

lemma computedBarMu_dbarRho_spec:
  "computedBarMu_dbarRho barT bar_rho =
     Some (mu0_spec barT * dexp (bar_rho * f1_spec barT bar_rho) *
           (f1_spec barT bar_rho + bar_rho * df1_dbar_rho_spec barT bar_rho))"
proof -
  have "(\<Sum>i<6. map (\<lambda>k. (Finite 1 / barT - Finite 1) ^ k) [0..<6] ! i *
           (\<Sum>j\<in>{1..<7}. Finite (real j) * Hij ! i ! j * map (\<lambda>k. (bar_rho - Finite 1) ^ k) [0..<7] ! (j - 1)))
        = df1_dbar_rho_spec barT bar_rho"
    unfolding df1_dbar_rho_spec_def
    by (intro sum.cong refl arg_cong2[where f="(*)"]) auto
  then show ?thesis
    unfolding computedBarMu_dbarRho_def
    by (simp add: seriesT seriesRho drho_loop[OF length_seriesT length_seriesRho]
        computeBarMu0Factor_spec mu1_factor_spec mu0_spec_def del: One_nat_def)
qed

lemma getdValuedRho_spec: "getdValuedRho T rho = Some (d_viscosity_dRho_spec T rho)"
  by (simp add: getdValuedRho_def d_viscosity_dRho_spec_def Let_def computedBarMu_dbarRho_spec)

lemma computedBarMu_dbarT_closed:
  "computedBarMu_dbarT barT bar_rho =
     Some ((Finite 50 / (f0_spec barT * dsqrt barT) -
            Finite 100 * dsqrt barT *
              (Finite 0 - (\<Sum>i\<in>{1..<4}. Finite (real i) * (Hi ! i / barT ^ (i + 1)))) /
              (f0_spec barT * f0_spec barT)) *
             dexp (bar_rho * f1_spec barT bar_rho) +
           bar_rho * dexp (bar_rho * f1_spec barT bar_rho) *
             (Finite 0 - (\<Sum>i\<in>{1..<6}. Finite (real i) * (Finite 1 / barT - Finite 1) ^ (i - 1) *
                 (\<Sum>j<7. Hij ! i ! j * (bar_rho - Finite 1) ^ j) / (barT * barT))) *
             Finite 100 * dsqrt barT / f0_spec barT)"
proof -
  have "(\<Sum>i\<in>{1..<6}. Finite (real i) * map (\<lambda>k. (Finite 1 / barT - Finite 1) ^ k) [0..<6] ! (i - 1) *
           (\<Sum>j<7. Hij ! i ! j * map (\<lambda>k. (bar_rho - Finite 1) ^ k) [0..<7] ! j) / (barT * barT))
      = (\<Sum>i\<in>{1..<6}. Finite (real i) * (Finite 1 / barT - Finite 1) ^ (i - 1) *
           (\<Sum>j<7. Hij ! i ! j * (bar_rho - Finite 1) ^ j) / (barT * barT))"
    by (intro sum.cong refl arg_cong2[where f="(*)"] arg_cong2[where f="(/)"]) auto
  then show ?thesis
    unfolding computedBarMu_dbarT_def
    by (simp add: seriesT seriesRho dmu1_loop[OF length_seriesT length_seriesRho] dmu0_loop
        computeBarMu0Factor_spec mu1_factor_spec Let_def del: One_nat_def)
qed







lemma getValue_Finite:
  assumes "0 < T" "f0_real (T / 647.096) \<noteq> 0"
  shows "getValue T rho = Some (Finite (bar_mu_real (T / 647.096) (rho / 322) * 0.000001))"
  using assms by (simp add: getValue_spec viscosity_spec_Finite)






subsection \<open>Bounds at low density\<close>


















subsection \<open>Particular arguments\<close>

lemma sum6d: "(\<Sum>i<6. f i) = f 0 + f 1 + f 2 + f 3 + f 4 + (f (5::nat) :: dbl)"
  by (simp add: eval_nat_numeral lessThan_Suc ac_simps)

lemma sum7d: "(\<Sum>i<7. f i) = f 0 + f 1 + f 2 + f 3 + f 4 + f 5 + (f (6::nat) :: dbl)"
  by (simp add: eval_nat_numeral lessThan_Suc ac_simps)

lemma f1_real_critical: "f1_real 1 1 = 0.520094"
  by (simp add: f1_real_def f1_row_real_def sum6r sum7r Hij_values_def)

lemma f0_real_one: "f0_real 1 = 4.2771914"
  by (simp add: f0_real_def sum4r Hi_values_def)






section \<open>The claims\<close>









text \<open>
  Claim C4. At \<open>T = 647.096\<close> and \<open>rho = 322.0\<close> the two series vectors are
  \<open>[1,0,0,0,0,0]\<close> and \<open>[1,0,0,0,0,0,0]\<close>, the residual factor is the one coefficient
  \<open>Hij[0][0] = 0.520094\<close>, and \<open>getValue\<close> returns
  \<open>100 / (H[0] + H[1] + H[2] + H[3]) * exp 0.520094 * 1e-6\<close>.
\<close>

theorem critical_point:
  "computeSeriesFactorTForMu1 (Finite 647.096 / Finite 647.096) =
     Some [Finite 1, Finite 0, Finite 0, Finite 0, Finite 0, Finite 0] \<and>
   computeSeriesFactorRhoForMu1 (Finite 322.0 / Finite 322.0) =
     Some [Finite 1, Finite 0, Finite 0, Finite 0, Finite 0, Finite 0, Finite 0] \<and>
   computeBarMu1Factor [Finite 1, Finite 0, Finite 0, Finite 0, Finite 0, Finite 0]
     [Finite 1, Finite 0, Finite 0, Finite 0, Finite 0, Finite 0, Finite 0] = Some (Hij ! 0 ! 0) \<and>
   Hij ! 0 ! 0 = Finite 0.520094 \<and>
   getValue 647.096 322.0 =
     Some (Finite (100 / (Hi_values ! 0 + Hi_values ! 1 + Hi_values ! 2 + Hi_values ! 3) *
                   exp 0.520094 * 0.000001))"
proof (intro conjI)
  show "computeSeriesFactorTForMu1 (Finite 647.096 / Finite 647.096) =
     Some [Finite 1, Finite 0, Finite 0, Finite 0, Finite 0, Finite 0]"
    by (simp add: seriesT upt_rec eval_nat_numeral one_dbl_def)
  show "computeSeriesFactorRhoForMu1 (Finite 322.0 / Finite 322.0) =
     Some [Finite 1, Finite 0, Finite 0, Finite 0, Finite 0, Finite 0, Finite 0]"
    by (simp add: seriesRho upt_rec eval_nat_numeral one_dbl_def)
  show h00: "Hij ! 0 ! 0 = Finite 0.520094"
    by (simp add: Hij_def Hij_values_def)
  show "computeBarMu1Factor [Finite 1, Finite 0, Finite 0, Finite 0, Finite 0, Finite 0]
     [Finite 1, Finite 0, Finite 0, Finite 0, Finite 0, Finite 0, Finite 0] = Some (Hij ! 0 ! 0)"
    by (simp add: computeBarMu1Factor_sum sum6d sum7d Hij_nth eval_nat_numeral)
  have "getValue 647.096 322.0 = Some (Finite (bar_mu_real (647.096 / 647.096) (322.0 / 322) * 0.000001))"
    by (rule getValue_Finite) (simp_all add: f0_real_one)
  then show "getValue 647.096 322.0 =
     Some (Finite (100 / (Hi_values ! 0 + Hi_values ! 1 + Hi_values ! 2 + Hi_values ! 3) *
                   exp 0.520094 * 0.000001))"
    by (simp add: bar_mu_real_def f1_real_critical f0_real_def sum4r)
qed







text \<open>
  Claim C8. For every pair \<open>(T, rho)\<close>, positive or not, each of the three entry points
  returns a double: no read or write of a vector or table leaves its range, and nothing
  rejects an argument. The double may be the non-finite one.
\<close>

theorem entry_points_total:
  "(\<exists>v. getValue T rho = Some v) \<and>
   (\<exists>v. getdValuedT T rho = Some v) \<and>
   (\<exists>v. getdValuedRho T rho = Some v)"
  by (simp add: getValue_spec getdValuedRho_spec getdValuedT_def Let_def computedBarMu_dbarT_closed)




end
